theory Spec2Isabelle
  imports Main "HOL-Library.List_Lexorder" "HOL-Library.Product_Lexorder" "HOL-Library.Multiset"
begin

section \<open>Python strings\<close>

text \<open>
  A Python \<open>str\<close> is a sequence of Unicode code points, and \<open>len\<close>, slicing and
  comparison work on code points. A string is therefore a list of code point numbers;
  \<open>lit\<close> turns an ASCII literal into such a list. Lists of numbers are ordered
  lexicographically (HOL-Library.List_Lexorder), as Python orders strings.
\<close>

type_synonym pystr = "nat list"

definition lit :: "string \<Rightarrow> pystr" where
  "lit s = map of_char s"

definition is_space :: "nat \<Rightarrow> bool" where
  \<comment> \<open>\<open>str.isspace\<close> of one character, which is also what \<open>\s\<close> matches in a \<open>str\<close> pattern\<close>
  "is_space c \<longleftrightarrow>
     (0x09 \<le> c \<and> c \<le> 0x0D) \<or> (0x1C \<le> c \<and> c \<le> 0x20) \<or> c = 0x85 \<or> c = 0xA0 \<or>
     c = 0x1680 \<or> (0x2000 \<le> c \<and> c \<le> 0x200A) \<or> c = 0x2028 \<or> c = 0x2029 \<or>
     c = 0x202F \<or> c = 0x205F \<or> c = 0x3000"

definition py_strip :: "pystr \<Rightarrow> pystr" where
  \<comment> \<open>\<open>s.strip()\<close>\<close>
  "py_strip s = rev (dropWhile is_space (rev (dropWhile is_space s)))"

definition py_replace_char :: "nat \<Rightarrow> pystr \<Rightarrow> pystr \<Rightarrow> pystr" where
  \<comment> \<open>\<open>s.replace(old, new)\<close> for a one-character \<open>old\<close>\<close>
  "py_replace_char old new s = concat (map (\<lambda>c. if c = old then new else [c]) s)"

section \<open>The URL functions of the standard library\<close>

text \<open>
  \<open>normalize_url\<close> is built from \<open>urlparse\<close>, \<open>parse_qs\<close> and \<open>urlencode\<close> of
  \<open>urllib.parse\<close>. They are modelled here as CPython 3.11 defines them. Two checks of
  \<open>urlsplit\<close> rest on tables that are data of the interpreter (the address parser of
  \<open>ipaddress\<close> and the NFKC normal form of \<open>unicodedata\<close>); they are taken as parameters.
\<close>

datatype py_exception =
    ValueError
  | UnicodeEncodeError
  | RequestException
  | UnexpectedException
  | OSError
  | KeyError
  | IndexError

record stdlib =
  is_ipv6_address :: "pystr \<Rightarrow> bool"
  nfkc :: "pystr \<Rightarrow> pystr"

record parse_result =
  scheme :: pystr
  netloc :: pystr
  path :: pystr
  params :: pystr
  query :: pystr
  fragment :: pystr

definition is_ascii_alpha :: "nat \<Rightarrow> bool" where
  "is_ascii_alpha c \<longleftrightarrow> (0x41 \<le> c \<and> c \<le> 0x5A) \<or> (0x61 \<le> c \<and> c \<le> 0x7A)"

definition is_digit :: "nat \<Rightarrow> bool" where
  "is_digit c \<longleftrightarrow> 0x30 \<le> c \<and> c \<le> 0x39"

definition is_scheme_char :: "nat \<Rightarrow> bool" where
  \<comment> \<open>\<open>scheme_chars\<close>: letters, digits and \<open>+-.\<close>\<close>
  "is_scheme_char c \<longleftrightarrow> is_ascii_alpha c \<or> is_digit c \<or> c = 0x2B \<or> c = 0x2D \<or> c = 0x2E"

definition ascii_lower :: "nat \<Rightarrow> nat" where
  "ascii_lower c = (if 0x41 \<le> c \<and> c \<le> 0x5A then c + 0x20 else c)"

definition is_hexdig :: "nat \<Rightarrow> bool" where
  \<comment> \<open>\<open>_hexdig\<close>\<close>
  "is_hexdig c \<longleftrightarrow> is_digit c \<or> (0x41 \<le> c \<and> c \<le> 0x46) \<or> (0x61 \<le> c \<and> c \<le> 0x66)"

definition hex_value :: "nat \<Rightarrow> nat" where
  "hex_value c = (if is_digit c then c - 0x30 else if 0x41 \<le> c \<and> c \<le> 0x46 then c - 0x37 else c - 0x57)"

definition hex_digit :: "nat \<Rightarrow> nat" where
  \<comment> \<open>one digit of \<open>'%{:02X}'.format(b)\<close>\<close>
  "hex_digit n = (if n < 10 then 0x30 + n else 0x37 + n)"

definition split_at :: "nat \<Rightarrow> pystr \<Rightarrow> pystr \<times> pystr" where
  \<comment> \<open>\<open>s.split(c, 1)\<close> and \<open>s.partition(c)\<close> without the separator: the text before the first
     \<open>c\<close> and the text after it (empty when \<open>c\<close> does not occur)\<close>
  "split_at c s = (takeWhile (\<lambda>x. x \<noteq> c) s, drop (Suc (length (takeWhile (\<lambda>x. x \<noteq> c) s))) s)"

definition uses_params :: "pystr list" where
  "uses_params =
     [[], lit ''ftp'', lit ''hdl'', lit ''prospero'', lit ''http'', lit ''imap'',
      lit ''https'', lit ''shttp'', lit ''rtsp'', lit ''rtsps'', lit ''rtspu'', lit ''sip'',
      lit ''sips'', lit ''mms'', lit ''sftp'', lit ''tel'']"

definition split_scheme :: "pystr \<Rightarrow> pystr \<times> pystr" where
  \<comment> \<open>the scheme loop of \<open>urlsplit\<close>: \<open>i = url.find(':')\<close>, \<open>i > 0\<close>, an ASCII letter first and
     only scheme characters before the colon\<close>
  "split_scheme u =
     (let pre = takeWhile (\<lambda>c. c \<noteq> 0x3A) u
      in if 0x3A \<in> set u \<and> pre \<noteq> [] \<and> is_ascii_alpha (hd pre) \<and> list_all is_scheme_char pre
         then (map ascii_lower pre, drop (Suc (length pre)) u)
         else ([], u))"

definition is_netloc_delim :: "nat \<Rightarrow> bool" where
  "is_netloc_delim c \<longleftrightarrow> c = 0x2F \<or> c = 0x3F \<or> c = 0x23"

definition splitnetloc :: "pystr \<Rightarrow> pystr \<times> pystr" where
  \<comment> \<open>\<open>_splitnetloc(url, 2)\<close>\<close>
  "splitnetloc u =
     (takeWhile (\<lambda>c. \<not> is_netloc_delim c) (drop 2 u),
      dropWhile (\<lambda>c. \<not> is_netloc_delim c) (drop 2 u))"

definition is_ipvfuture :: "pystr \<Rightarrow> bool" where
  \<comment> \<open>\<open>re.match(r"\Av[a-fA-F0-9]+\..+\Z", hostname)\<close>\<close>
  "is_ipvfuture h =
     (case h of
        [] \<Rightarrow> False
      | v # r \<Rightarrow>
          v = 0x76 \<and> takeWhile is_hexdig r \<noteq> [] \<and>
          (case dropWhile is_hexdig r of
             [] \<Rightarrow> False
           | d # t \<Rightarrow> d = 0x2E \<and> t \<noteq> [] \<and> 0x0A \<notin> set t))"

definition check_bracketed_host :: "stdlib \<Rightarrow> pystr \<Rightarrow> bool" where
  \<comment> \<open>\<open>_check_bracketed_host\<close>: true when it returns, false when it raises\<close>
  "check_bracketed_host lib h =
     (if h \<noteq> [] \<and> hd h = 0x76 then is_ipvfuture h else is_ipv6_address lib h)"

definition checknetloc :: "stdlib \<Rightarrow> pystr \<Rightarrow> bool" where
  \<comment> \<open>\<open>_checknetloc\<close>: true when it returns, false when it raises\<close>
  "checknetloc lib nl =
     (if nl = [] \<or> list_all (\<lambda>c. c < 0x80) nl then True
      else let n = filter (\<lambda>c. c \<noteq> 0x40 \<and> c \<noteq> 0x3A \<and> c \<noteq> 0x23 \<and> c \<noteq> 0x3F) nl;
               netloc2 = nfkc lib n
           in n = netloc2 \<or>
              \<not> (\<exists>c \<in> set [0x2F, 0x3F, 0x23, 0x40, 0x3A]. c \<in> set netloc2))"

definition urlsplit :: "stdlib \<Rightarrow> pystr \<Rightarrow> py_exception + (pystr \<times> pystr \<times> pystr \<times> pystr \<times> pystr)" where
  "urlsplit lib u =
     (let u1 = dropWhile (\<lambda>c. c \<le> 0x20) u;
          u2 = filter (\<lambda>c. c \<noteq> 0x09 \<and> c \<noteq> 0x0D \<and> c \<noteq> 0x0A) u1;
          (sch, u3) = split_scheme u2;
          (nl, u4) = (if take 2 u3 = [0x2F, 0x2F] then splitnetloc u3 else ([], u3))
      in if (0x5B \<in> set nl \<and> 0x5D \<notin> set nl) \<or> (0x5D \<in> set nl \<and> 0x5B \<notin> set nl)
         then Inl ValueError
         else if 0x5B \<in> set nl \<and> 0x5D \<in> set nl \<and>
                 \<not> check_bracketed_host lib (fst (split_at 0x5D (snd (split_at 0x5B nl))))
         then Inl ValueError
         else let (u5, frag) = (if 0x23 \<in> set u4 then split_at 0x23 u4 else (u4, []));
                  (u6, q) = (if 0x3F \<in> set u5 then split_at 0x3F u5 else (u5, []))
              in if \<not> checknetloc lib nl then Inl ValueError
                 else Inr (sch, nl, u6, q, frag))"

definition splitparams :: "pystr \<Rightarrow> pystr \<times> pystr" where
  \<comment> \<open>\<open>_splitparams\<close>, called on a text that contains \<open>;\<close>\<close>
  "splitparams u =
     (let k = (if 0x2F \<in> set u then length u - Suc (length (takeWhile (\<lambda>c. c \<noteq> 0x2F) (rev u))) else 0);
          t = drop k u
      in if 0x3B \<notin> set t then (u, [])
         else let i = k + length (takeWhile (\<lambda>c. c \<noteq> 0x3B) t)
              in (take i u, drop (Suc i) u))"

definition urlparse :: "stdlib \<Rightarrow> pystr \<Rightarrow> py_exception + parse_result" where
  "urlparse lib u =
     (case urlsplit lib u of
        Inl e \<Rightarrow> Inl e
      | Inr (sch, nl, p, q, frag) \<Rightarrow>
          (let (p', prm) = (if sch \<in> set uses_params \<and> 0x3B \<in> set p then splitparams p else (p, []))
           in Inr \<lparr> scheme = sch, netloc = nl, path = p', params = prm, query = q,
                    fragment = frag \<rparr>))"

subsection \<open>Percent decoding\<close>

definition is_continuation :: "nat \<Rightarrow> bool" where
  "is_continuation b \<longleftrightarrow> 0x80 \<le> b \<and> b < 0xC0"

definition second_byte_ok :: "nat \<Rightarrow> nat \<Rightarrow> bool" where
  \<comment> \<open>the second byte after the lead byte \<open>b0\<close>: a continuation byte that gives neither an
     overlong form, nor a surrogate, nor a code point above U+10FFFF\<close>
  "second_byte_ok b0 b1 \<longleftrightarrow>
     is_continuation b1 \<and> (b0 = 0xE0 \<longrightarrow> 0xA0 \<le> b1) \<and> (b0 = 0xED \<longrightarrow> b1 < 0xA0) \<and>
     (b0 = 0xF0 \<longrightarrow> 0x90 \<le> b1) \<and> (b0 = 0xF4 \<longrightarrow> b1 < 0x90)"

fun utf8_decode :: "nat list \<Rightarrow> pystr" where
  \<comment> \<open>\<open>bytes.decode('utf-8', 'replace')\<close>: every maximal ill-formed part becomes U+FFFD\<close>
  "utf8_decode [] = []"
| "utf8_decode (b0 # bs) =
     (if b0 < 0x80 then b0 # utf8_decode bs
      else if b0 < 0xC2 \<or> 0xF4 < b0 then 0xFFFD # utf8_decode bs
      else (case bs of
              [] \<Rightarrow> [0xFFFD]
            | b1 # r1 \<Rightarrow>
                if \<not> second_byte_ok b0 b1 then 0xFFFD # utf8_decode bs
                else if b0 < 0xE0 then ((b0 - 0xC0) * 0x40 + (b1 - 0x80)) # utf8_decode r1
                else (case r1 of
                        [] \<Rightarrow> [0xFFFD]
                      | b2 # r2 \<Rightarrow>
                          if \<not> is_continuation b2 then 0xFFFD # utf8_decode r1
                          else if b0 < 0xF0
                          then ((b0 - 0xE0) * 0x1000 + (b1 - 0x80) * 0x40 + (b2 - 0x80)) # utf8_decode r2
                          else (case r2 of
                                  [] \<Rightarrow> [0xFFFD]
                                | b3 # r3 \<Rightarrow>
                                    if \<not> is_continuation b3 then 0xFFFD # utf8_decode r2
                                    else ((b0 - 0xF0) * 0x40000 + (b1 - 0x80) * 0x1000 +
                                          (b2 - 0x80) * 0x40 + (b3 - 0x80)) # utf8_decode r3))))"

fun unquote_to_bytes :: "pystr \<Rightarrow> nat list" where
  \<comment> \<open>on ASCII text: \<open>%\<close> followed by two hexadecimal digits becomes one byte\<close>
  "unquote_to_bytes [] = []"
| "unquote_to_bytes (c # cs) =
     (if c = 0x25 then
        (case cs of
           h1 # h2 # r \<Rightarrow>
             if is_hexdig h1 \<and> is_hexdig h2 then (hex_value h1 * 16 + hex_value h2) # unquote_to_bytes r
             else c # unquote_to_bytes cs
         | _ \<Rightarrow> c # unquote_to_bytes cs)
      else c # unquote_to_bytes cs)"

fun unquote_runs :: "pystr \<Rightarrow> pystr \<Rightarrow> pystr" where
  \<comment> \<open>the loop of \<open>unquote\<close> over \<open>_asciire.split(string)\<close>: every maximal run of ASCII
     characters is unquoted to bytes and decoded, the other characters are kept;
     the first argument is the ASCII run read so far\<close>
  "unquote_runs run [] = utf8_decode (unquote_to_bytes run)"
| "unquote_runs run (c # cs) =
     (if c < 0x80 then unquote_runs (run @ [c]) cs
      else utf8_decode (unquote_to_bytes run) @ c # unquote_runs [] cs)"

definition unquote :: "pystr \<Rightarrow> pystr" where
  "unquote s = (if 0x25 \<notin> set s then s else unquote_runs [] s)"

definition unquote_plus :: "pystr \<Rightarrow> pystr" where
  "unquote_plus s = unquote (map (\<lambda>c. if c = 0x2B then 0x20 else c) s)"

fun py_split :: "nat \<Rightarrow> pystr \<Rightarrow> pystr list" where
  \<comment> \<open>\<open>s.split(c)\<close>\<close>
  "py_split c [] = [[]]"
| "py_split c (x # xs) =
     (if x = c then [] # py_split c xs
      else (case py_split c xs of
              [] \<Rightarrow> [[x]]
            | p # ps \<Rightarrow> (x # p) # ps))"

definition parse_qsl :: "pystr \<Rightarrow> (pystr \<times> pystr) list" where
  \<comment> \<open>\<open>parse_qsl(qs, keep_blank_values=True)\<close>\<close>
  "parse_qsl qs =
     (if qs = [] then []
      else concat (map (\<lambda>name_value.
             if name_value = [] then []
             else [(unquote_plus (fst (split_at 0x3D name_value)),
                    unquote_plus (snd (split_at 0x3D name_value)))])
           (py_split 0x26 qs)))"

definition dict_add :: "(pystr \<times> pystr list) list \<Rightarrow> pystr \<Rightarrow> pystr \<Rightarrow> (pystr \<times> pystr list) list" where
  \<comment> \<open>a dictionary keeps its keys in insertion order\<close>
  "dict_add d name v =
     (if name \<in> fst ` set d
      then map (\<lambda>(k, vs). if k = name then (k, vs @ [v]) else (k, vs)) d
      else d @ [(name, [v])])"

definition parse_qs :: "pystr \<Rightarrow> (pystr \<times> pystr list) list" where
  \<comment> \<open>\<open>parse_qs(qs, keep_blank_values=True)\<close>\<close>
  "parse_qs qs = fold (\<lambda>(name, v) d. dict_add d name v) (parse_qsl qs) []"

subsection \<open>Percent encoding\<close>

definition utf8_encode_char :: "nat \<Rightarrow> py_exception + nat list" where
  \<comment> \<open>\<open>str.encode('utf-8', 'strict')\<close> of one character: surrogates cannot be encoded\<close>
  "utf8_encode_char c =
     (if c < 0x80 then Inr [c]
      else if c < 0x800 then Inr [0xC0 + c div 0x40, 0x80 + c mod 0x40]
      else if 0xD800 \<le> c \<and> c \<le> 0xDFFF then Inl UnicodeEncodeError
      else if c < 0x10000 then Inr [0xE0 + c div 0x1000, 0x80 + c div 0x40 mod 0x40, 0x80 + c mod 0x40]
      else if c < 0x110000 then
        Inr [0xF0 + c div 0x40000, 0x80 + c div 0x1000 mod 0x40, 0x80 + c div 0x40 mod 0x40,
             0x80 + c mod 0x40]
      else Inl UnicodeEncodeError)"

fun map_exc :: "('a \<Rightarrow> py_exception + 'b) \<Rightarrow> 'a list \<Rightarrow> py_exception + 'b list" where
  \<comment> \<open>a loop that stops at the first exception\<close>
  "map_exc f [] = Inr []"
| "map_exc f (x # xs) =
     (case f x of
        Inl e \<Rightarrow> Inl e
      | Inr y \<Rightarrow> (case map_exc f xs of Inl e \<Rightarrow> Inl e | Inr ys \<Rightarrow> Inr (y # ys)))"

definition is_always_safe :: "nat \<Rightarrow> bool" where
  \<comment> \<open>\<open>_ALWAYS_SAFE\<close>: letters, digits and \<open>_.-~\<close>\<close>
  "is_always_safe b \<longleftrightarrow>
     is_ascii_alpha b \<or> is_digit b \<or> b = 0x5F \<or> b = 0x2E \<or> b = 0x2D \<or> b = 0x7E"

definition quote_byte :: "nat \<Rightarrow> pystr" where
  "quote_byte b =
     (if is_always_safe b then [b]
      else if b = 0x20 then [0x2B]
      else [0x25, hex_digit (b div 16), hex_digit (b mod 16)])"

definition quote_plus :: "pystr \<Rightarrow> py_exception + pystr" where
  \<comment> \<open>\<open>quote_plus(s, safe='')\<close>\<close>
  "quote_plus s =
     (case map_exc utf8_encode_char s of
        Inl e \<Rightarrow> Inl e
      | Inr bss \<Rightarrow> Inr (concat (map quote_byte (concat bss))))"

fun py_join :: "pystr \<Rightarrow> pystr list \<Rightarrow> pystr" where
  \<comment> \<open>\<open>sep.join(parts)\<close>\<close>
  "py_join sep [] = []"
| "py_join sep [p] = p"
| "py_join sep (p # ps) = p @ sep @ py_join sep ps"

definition urlencode :: "(pystr \<times> pystr list) list \<Rightarrow> py_exception + pystr" where
  \<comment> \<open>\<open>urlencode(items, doseq=True)\<close> on pairs of a string and a list of strings\<close>
  "urlencode items =
     (case map_exc (\<lambda>(k, vs).
             case quote_plus k of
               Inl e \<Rightarrow> Inl e
             | Inr kq \<Rightarrow>
                 map_exc (\<lambda>elt. case quote_plus elt of
                                   Inl e \<Rightarrow> Inl e
                                 | Inr eq \<Rightarrow> Inr (kq @ [0x3D] @ eq)) vs) items of
        Inl e \<Rightarrow> Inl e
      | Inr l \<Rightarrow> Inr (py_join [0x26] (concat l)))"

section \<open>normalize_url\<close>

text \<open>
  The items of the dictionary are pairs of a key and a list; the keys of a dictionary are
  distinct, so \<open>sorted\<close> decides every comparison of two items on the keys.
\<close>

definition normalize_url :: "stdlib \<Rightarrow> pystr \<Rightarrow> py_exception + pystr" where
  "normalize_url lib u =
     (case urlparse lib u of
        Inl e \<Rightarrow> Inl e
      | Inr parsed \<Rightarrow>
          (let normalized = scheme parsed @ lit ''://'' @ netloc parsed @ path parsed
           in case (if query parsed \<noteq> []
                    then (case urlencode (sort_key fst (parse_qs (query parsed))) of
                            Inl e \<Rightarrow> Inl e
                          | Inr sorted_query \<Rightarrow> Inr (normalized @ lit ''?'' @ sorted_query))
                    else Inr normalized) of
                Inl e \<Rightarrow> Inl e
              | Inr n \<Rightarrow>
                  Inr (if n \<noteq> [] \<and> last n = 0x2F \<and> 3 < count_list n 0x2F then butlast n else n)))"

section \<open>clean_text\<close>

text \<open>
  \<open>re.sub(r'\n\s*\n\s*\n+', '\n\n', text)\<close>. A match starts at a newline and stays inside
  the run of whitespace that begins there; it exists when that run holds at least three
  newlines, and the greedy quantifiers make it end right after the last newline of the run.
\<close>

definition blank_run_match :: "pystr \<Rightarrow> nat" where
  \<comment> \<open>length of the match of the pattern at the head of the text, 0 when there is none\<close>
  "blank_run_match s =
     (case s of
        [] \<Rightarrow> 0
      | c # cs \<Rightarrow>
          (if c \<noteq> 0x0A then 0
           else let w = takeWhile is_space s
                in if 3 \<le> count_list w 0x0A
                   then length w - length (takeWhile (\<lambda>d. d \<noteq> 0x0A) (rev w))
                   else 0))"

function collapse_blank_lines :: "pystr \<Rightarrow> pystr" where
  "collapse_blank_lines [] = []"
| "collapse_blank_lines (c # cs) =
     (let m = blank_run_match (c # cs)
      in if m = 0 then c # collapse_blank_lines cs
         else [0x0A, 0x0A] @ collapse_blank_lines (drop m (c # cs)))"
  by pat_completeness auto
termination
  by (relation "measure length") auto

function collapse_run :: "nat \<Rightarrow> pystr \<Rightarrow> pystr" where
  \<comment> \<open>\<open>re.sub(r'c+', ' ', text)\<close> for the single character \<open>c\<close>\<close>
  "collapse_run c [] = []"
| "collapse_run c (x # xs) =
     (if x = c then 0x20 # collapse_run c (dropWhile (\<lambda>y. y = c) xs)
      else x # collapse_run c xs)"
  by pat_completeness auto
termination
  by (relation "measure (\<lambda>(c, xs). length xs)") (auto simp: less_Suc_eq_le length_dropWhile_le)

definition permitted_char :: "nat \<Rightarrow> bool" where
  \<comment> \<open>the class \<open>[\x20-\x7E\n\t\u00C0-\u017F\u1E00-\u1EFF]\<close>\<close>
  "permitted_char c \<longleftrightarrow>
     (0x20 \<le> c \<and> c \<le> 0x7E) \<or> c = 0x0A \<or> c = 0x09 \<or>
     (0xC0 \<le> c \<and> c \<le> 0x17F) \<or> (0x1E00 \<le> c \<and> c \<le> 0x1EFF)"

definition replacements :: "(nat \<times> pystr) list" where
  "replacements =
     [(0x2019, lit [CHR 0x27]), (0x2018, lit [CHR 0x27]),
      (0x201C, lit [CHR 0x22]), (0x201D, lit [CHR 0x22]),
      (0x2013, lit ''-''), (0x2014, lit ''--''), (0xA0, lit '' '')]"

definition clean_text :: "pystr \<Rightarrow> pystr" where
  "clean_text text =
     (if text = [] then []
      else let t1 = collapse_blank_lines text;
               t2 = collapse_run 0x20 t1;
               t3 = collapse_run 0x09 t2;
               t4 = filter permitted_char t3;
               t5 = fold (\<lambda>(old, new) t. py_replace_char old new t) replacements t4
           in py_strip t5)"

section \<open>Content analysis\<close>

text \<open>
  The analysis of a page is the dictionary decoded from the oracle's JSON answer, read
  with \<open>.get(key, default)\<close> everywhere, so every key may be missing. The keys
  \<open>title\<close>, \<open>url\<close> and \<open>scraped_at\<close> are set by \<open>get_page_content\<close>. The values are typed
  as the page record of the specification types them.
\<close>

record analysis =
  language :: "pystr option"
  category :: "pystr option"
  summary :: "pystr option"
  keyword_list :: "pystr list option"
  importance_score :: "int option"
  title :: "pystr option"
  url :: "pystr option"
  scraped_at :: "pystr option"

datatype oracle_reply =
    OracleRaises
  | OracleReturns analysis

text \<open>
  The client is \<open>None\<close> or a chat completion service. The service is asked with a prompt
  built from the URL, the title and \<open>content[:3000]\<close>; \<open>OracleReturns a\<close> stands for an
  answer whose text \<open>json.loads\<close> decodes to the dictionary \<open>a\<close>, and \<open>OracleRaises\<close> for
  every exception raised inside the \<open>try\<close> block (the call itself, a missing choice,
  undecodable JSON).
\<close>

type_synonym oracle_client = "pystr \<Rightarrow> pystr \<Rightarrow> pystr \<Rightarrow> oracle_reply"

definition default_analysis :: "pystr \<Rightarrow> analysis" where
  "default_analysis content =
     \<lparr> language = Some (lit ''unknown''),
       category = Some (lit ''general''),
       summary = Some (if length content > 200 then take 200 content @ lit ''...'' else content),
       keyword_list = Some [],
       importance_score = Some 5,
       title = None, url = None, scraped_at = None \<rparr>"

definition analyze_content_with_ai ::
  "oracle_client option \<Rightarrow> pystr \<Rightarrow> pystr \<Rightarrow> pystr \<Rightarrow> analysis" where
  "analyze_content_with_ai openai_client content u ttl =
     (case openai_client of
        None \<Rightarrow> default_analysis content
      | Some client \<Rightarrow>
          (case client u ttl (take 3000 content) of
             OracleReturns ai_analysis \<Rightarrow> ai_analysis
           | OracleRaises \<Rightarrow> default_analysis content))"

section \<open>Ordering of a language document\<close>

record item =
  filepath :: pystr
  content :: pystr
  item_analysis :: analysis





section \<open>The crawler\<close>

text \<open>
  The outside world is a record of functions. The answers of the network, of the oracle and
  of the file system may change from one call to the next, so they take the number of
  earlier interactions (\<open>io_count\<close>) as an argument. The order in which Python iterates over
  a set is not specified; \<open>set_order\<close> stands for it. \<open>urljoin\<close> is the library function of
  that name, and \<open>choose_filepath\<close> is the file name that \<open>save_page_content\<close> derives from
  the URL and the files that exist (lines 390 to 416 of the source).
\<close>

datatype content_length_header =
    NoContentLength
  | ContentLength int
  | BadContentLength

record head_response =
  content_type :: pystr
  content_length :: content_length_header

datatype stream_event =
    Chunk "nat list"
  | StreamRaises

record get_response =
  status_error :: bool
  body_stream :: "stream_event list"

record soup =
  soup_title :: "pystr option"
  soup_text :: pystr
  soup_hrefs :: "pystr list"

record progress =
  saved_visited_urls :: "pystr set option"
  saved_urls_to_visit :: "pystr list option"
  saved_pages_scraped :: "int option"
  multilingual_stats :: "(pystr \<times> nat) list"

datatype file_content =
    PageFile pystr analysis
  | MetadataFile analysis
  | ProgressFile progress
  | CorruptFile
  | SummaryFile "pystr set" "pystr list"
  | LanguageDocument "(nat \<times> item \<times> pystr) list"

record world =
  lib :: stdlib
  urljoin :: "pystr \<Rightarrow> pystr \<Rightarrow> py_exception + pystr"
  set_order :: "pystr list \<Rightarrow> pystr list"
  robots_can_fetch :: "pystr \<Rightarrow> py_exception + bool"
  http_head :: "nat \<Rightarrow> pystr \<Rightarrow> py_exception + head_response"
  http_get :: "nat \<Rightarrow> pystr \<Rightarrow> py_exception + get_response"
  parse_html :: "nat list \<Rightarrow> py_exception + soup"
  classify :: "nat \<Rightarrow> oracle_client"
  translate :: "nat \<Rightarrow> pystr \<Rightarrow> pystr \<Rightarrow> pystr option"
  now :: "nat \<Rightarrow> pystr"
  choose_filepath :: "(pystr \<rightharpoonup> file_content) \<Rightarrow> pystr \<Rightarrow> pystr"
  write_fails :: "nat \<Rightarrow> pystr \<Rightarrow> bool"




































section \<open>A small site\<close>




section \<open>Properties\<close>

lemma lit_simps [simp]: "lit [] = []" "lit (c # cs) = of_char c # lit cs"
  by (simp_all add: lit_def)

subsection \<open>Termination of the crawl loop\<close>










subsection \<open>Requests and the visited set\<close>









subsection \<open>Running the definitions\<close>

lemmas url_eval =
  normalize_url_def urlparse_def urlsplit_def split_scheme_def splitnetloc_def split_at_def
  splitparams_def checknetloc_def check_bracketed_host_def uses_params_def
  is_ascii_alpha_def is_digit_def is_scheme_char_def ascii_lower_def is_netloc_delim_def
  parse_qs_def parse_qsl_def dict_add_def unquote_plus_def unquote_def
  urlencode_def quote_plus_def quote_byte_def utf8_encode_char_def is_always_safe_def
  hex_digit_def hex_value_def is_hexdig_def Let_def

lemmas text_eval =
  clean_text_def blank_run_match_def permitted_char_def replacements_def
  py_replace_char_def py_strip_def is_space_def



subsection \<open>The claims\<close>




text \<open>
  Claim C5. When the classification oracle is absent or its call raises,
  \<open>analyze_content_with_ai\<close> returns the default analysis: language "unknown", category
  "general", no keywords, importance score 5, and as summary the first 200 characters of
  the text followed by "..." when the text is longer than 200 characters, the text itself
  otherwise. The function returns a value in both cases: no error reaches the caller.
\<close>

theorem analyze_default_on_failure:
  assumes "openai_client = None \<or>
           (\<exists>client. openai_client = Some client \<and> client u ttl (take 3000 text) = OracleRaises)"
  shows "analyze_content_with_ai openai_client text u ttl =
           \<lparr> language = Some (lit ''unknown''),
             category = Some (lit ''general''),
             summary = Some (if 200 < length text then take 200 text @ lit ''...'' else text),
             keyword_list = Some [],
             importance_score = Some 5,
             title = None, url = None, scraped_at = None \<rparr>"
  using assms by (auto simp: analyze_content_with_ai_def default_analysis_def)

theorem analyze_default_on_failure_witness:
  "analyze_content_with_ai (Some (\<lambda>u t c. OracleRaises)) (replicate 201 0x61) (lit ''u'') (lit ''t'') =
     \<lparr> language = Some (lit ''unknown''),
       category = Some (lit ''general''),
       summary = Some (replicate 200 0x61 @ lit ''...''),
       keyword_list = Some [],
       importance_score = Some 5,
       title = None, url = None, scraped_at = None \<rparr>"
  using analyze_default_on_failure
    [of "Some (\<lambda>u t c. OracleRaises)" "lit ''u''" "lit ''t''" "replicate 201 0x61"]
  by simp

text \<open>
  Claim C2 (the code differs). Two URLs that differ only in a trailing slash of the path
  should normalize to the same string, also when a query string follows the path.
  \<open>normalize_url\<close> removes the slash from the end of the assembled string, after the query
  has been appended, so a slash before the query stays: the two URLs below keep
  different normal forms.
\<close>

theorem normalize_url_slash_before_query:
  "normalize_url tables (lit ''http://h/a/?x=1'') = Inr (lit ''http://h/a/?x=1'') \<and>
   normalize_url tables (lit ''http://h/a?x=1'') = Inr (lit ''http://h/a?x=1'') \<and>
   normalize_url tables (lit ''http://h/a/?x=1'') \<noteq> normalize_url tables (lit ''http://h/a?x=1'')"
  by (simp add: url_eval)







text \<open>
  Claim C9 (the code differs). \<open>clean_text\<close> should replace typographic punctuation by its
  ASCII equivalent. The step before the replacements keeps only printable ASCII, newline,
  tab and two ranges of accented Latin letters, so every typographic character is already
  deleted when the replacements run: on every text they change nothing, and "it\<open>\<close>s"
  written with U+2019 comes out as "its".
\<close>

theorem clean_text_deletes_typographic:
  "clean_text text =
     (if text = [] then []
      else py_strip (filter permitted_char
             (collapse_run 0x09 (collapse_run 0x20 (collapse_blank_lines text))))) \<and>
   clean_text (lit ''it'' @ [0x2019] @ lit ''s'') = lit ''its'' \<and>
   clean_text (lit ''a'' @ [0x2014] @ lit ''b'' @ [0xA0] @ lit ''c'' @ [0x201C]) = lit ''abc''"
proof (intro conjI)
  have keep: "\<And>old new t. \<not> permitted_char old \<Longrightarrow>
      py_replace_char old new (filter permitted_char t) = filter permitted_char t"
  proof -
    fix old new and t :: pystr
    assume "\<not> permitted_char old"
    then show "py_replace_char old new (filter permitted_char t) = filter permitted_char t"
      by (induction t) (auto simp: py_replace_char_def)
  qed
  have "\<And>t. fold (\<lambda>(old, new) t. py_replace_char old new t) replacements (filter permitted_char t) =
           filter permitted_char t"
    by (simp add: replacements_def keep permitted_char_def)
  then show "clean_text text =
     (if text = [] then []
      else py_strip (filter permitted_char
             (collapse_run 0x09 (collapse_run 0x20 (collapse_blank_lines text)))))"
    by (simp add: clean_text_def Let_def)
next
  show "clean_text (lit ''it'' @ [0x2019] @ lit ''s'') = lit ''its''"
    by (simp add: text_eval Let_def)
next
  show "clean_text (lit ''a'' @ [0x2014] @ lit ''b'' @ [0xA0] @ lit ''c'' @ [0x201C]) = lit ''abc''"
    by (simp add: text_eval Let_def)
qed

end
